theory Spec2Isabelle
  imports Complex_Main
begin

section \<open>Data model\<close>

text \<open>
  The server keeps its data in MongoDB collections, one per Mongoose schema. A collection
  is a list of documents in insertion order; an ObjectId is a natural number. The fields
  of each record are those of the schema, prefixed with the collection's letter.
  Calls to the database are taken to succeed: a \<^verbatim>\<open>catch\<close> block that answers 500 has a
  counterpart only where the handler's own code throws.
\<close>

type_synonym oid = nat

record user =
  u_id :: oid
  u_email :: string
  u_password :: string
  u_role :: string
  u_name :: string
  u_additionalInfo :: "string option"
  u_degree :: string
  u_department :: string

datatype file_ref = FileRef string string

datatype section_doc = Section string string "file_ref list"

datatype unit_doc = Unit string "section_doc list"

record subject =
  s_id :: oid
  s_title :: string
  s_degree :: string
  s_department :: string
  s_creator :: oid
  s_units :: "unit_doc list"

record grade =
  g_id :: oid
  g_student :: oid
  g_subject :: oid
  g_cycleTest1 :: real
  g_cycleTest2 :: real
  g_assignments :: real

record cal_entry =
  c_day :: string
  c_date :: string
  c_description :: string

record task =
  t_id :: oid
  t_text :: string
  t_category :: string
  t_priority :: string
  t_dueDate :: int
  t_completed :: bool
  t_creator :: oid
  t_notificationSent :: bool

record store =
  users :: "user list"
  subjects :: "subject list"
  grades :: "grade list"
  calendar :: "cal_entry list"
  tasks :: "task list"

text \<open>The payload that \<^verbatim>\<open>jwt.sign\<close> receives and \<^verbatim>\<open>jwt.verify\<close> hands back as \<^verbatim>\<open>req.user\<close>.\<close>

record jwt_payload =
  userId :: oid
  role :: string

datatype jwt_error = TokenExpiredError | JsonWebTokenError | NotBeforeError

text \<open>
  A response is the status given to \<^verbatim>\<open>res.status\<close> (200 when the handler calls
  \<^verbatim>\<open>res.json\<close> directly) and the JSON body.
\<close>

datatype body =
    Message string
  | Errors "string list"
  | AuthOk string string string
  | SubjectList "subject list"
  | SubjectDoc subject
  | GradeDoc grade
  | TaskList "task list"
  | CalendarList "cal_entry list"

record response =
  status :: nat
  content :: body

definition respond :: "nat \<Rightarrow> body \<Rightarrow> response" where
  "respond n b = \<lparr>status = n, content = b\<rparr>"

section \<open>Authentication middleware\<close>

text \<open>
  \<^verbatim>\<open>String.prototype.split\<close> with a one-character separator: the pieces between the
  separators, empty pieces included, so the result is never empty.
\<close>

fun split_on :: "char \<Rightarrow> string \<Rightarrow> string list" where
  "split_on c [] = [[]]"
| "split_on c (x # xs) =
     (if x = c then [] # split_on c xs
      else (case split_on c xs of
              [] \<Rightarrow> [[x]]
            | w # ws \<Rightarrow> (x # w) # ws))"

text \<open>
  \<^verbatim>\<open>authHeader && authHeader.split(' ')[1]\<close>, read for its truth value: \<open>None\<close> when
  the header is missing or empty, or when the second piece is missing or empty.
\<close>

definition bearer_token :: "string option \<Rightarrow> string option" where
  "bearer_token authHeader =
     (case authHeader of
        None \<Rightarrow> None
      | Some h \<Rightarrow>
          if h = [] then None
          else (case split_on CHR '' '' h of
                  _ # t # _ \<Rightarrow> if t = [] then None else Some t
                | _ \<Rightarrow> None))"

text \<open>
  \<^verbatim>\<open>authenticateToken\<close>. The library call \<^verbatim>\<open>jwt.verify(token, secret, cb)\<close> is the
  parameter \<open>verify\<close>. \<open>Inl\<close> is the response that ends the request; \<open>Inr\<close> is the
  value stored in \<^verbatim>\<open>req.user\<close> before \<^verbatim>\<open>next()\<close>.
\<close>

definition authenticateToken ::
  "(string \<Rightarrow> jwt_error + jwt_payload) \<Rightarrow> string option \<Rightarrow> response + jwt_payload" where
  "authenticateToken verify authHeader =
     (case bearer_token authHeader of
        None \<Rightarrow> Inl (respond 401 (Message ''No token provided''))
      | Some token \<Rightarrow>
          (case verify token of
             Inl err \<Rightarrow> Inl (respond 403 (Message ''Invalid or expired token''))
           | Inr payload \<Rightarrow> Inr payload))"

text \<open>
  A protected route \<^verbatim>\<open>app.METHOD(path, authenticateToken, handler)\<close>: the handler runs
  on the store only when the middleware calls \<^verbatim>\<open>next()\<close>.
\<close>

definition protected ::
  "(string \<Rightarrow> jwt_error + jwt_payload) \<Rightarrow> string option \<Rightarrow>
   (jwt_payload \<Rightarrow> store \<Rightarrow> response \<times> store) \<Rightarrow> store \<Rightarrow> response \<times> store" where
  "protected verify authHeader handler st =
     (case authenticateToken verify authHeader of
        Inl r \<Rightarrow> (r, st)
      | Inr payload \<Rightarrow> handler payload st)"

section \<open>Signup and login\<close>

text \<open>
  The JSON body of the two authentication routes; \<open>None\<close> is a field the body lacks.
\<close>

record auth_body =
  b_email :: "string option"
  b_password :: "string option"
  b_role :: "string option"
  b_name :: "string option"
  b_additionalInfo :: "string option"
  b_degree :: "string option"
  b_department :: "string option"

text \<open>
  The express-validator chains. A chain whose check fails contributes its message to
  \<^verbatim>\<open>errors.array()\<close>, in the order the chains are listed. The library predicate
  \<^verbatim>\<open>isEmail\<close> is a parameter; a missing field is validated as the empty string, which
  no check but \<^verbatim>\<open>exists\<close> tells from an absent one, and which \<^verbatim>\<open>isEmail\<close> rejects.
\<close>

definition check :: "bool \<Rightarrow> string \<Rightarrow> string list" where
  "check ok msg = (if ok then [] else [msg])"

definition field_value :: "string option \<Rightarrow> string" where
  "field_value f = (case f of None \<Rightarrow> [] | Some v \<Rightarrow> v)"

definition signup_validation :: "(string \<Rightarrow> bool) \<Rightarrow> auth_body \<Rightarrow> string list" where
  "signup_validation isEmail b =
     check (b_email b \<noteq> None \<and> isEmail (field_value (b_email b)))
       ''Please enter a valid email address'' @
     check (6 \<le> length (field_value (b_password b)))
       ''Password must be at least 6 characters long'' @
     check (field_value (b_role b) \<in> set [''teacher'', ''student'', ''alumni''])
       ''Role must be either teacher, student, or alumni'' @
     check (field_value (b_name b) \<noteq> []) ''Name is required'' @
     check (field_value (b_degree b) \<noteq> []) ''Degree is required'' @
     check (field_value (b_department b) \<noteq> []) ''Department is required''"

definition login_validation :: "(string \<Rightarrow> bool) \<Rightarrow> auth_body \<Rightarrow> string list" where
  "login_validation isEmail b =
     check (b_email b \<noteq> None \<and> isEmail (field_value (b_email b)))
       ''Please enter a valid email address'' @
     check (b_password b \<noteq> None) ''Password is required'' @
     check (b_role b \<noteq> None) ''Role is required''"

text \<open>\<^verbatim>\<open>User.findOne({ email })\<close>: the first document with that email.\<close>

definition findOne_email :: "string \<Rightarrow> store \<Rightarrow> user option" where
  "findOne_email e st = find (\<lambda>u. u_email u = e) (users st)"

text \<open>
  \<^verbatim>\<open>POST /api/auth/signup\<close>. Parameters: the validator's \<^verbatim>\<open>isEmail\<close>,
  \<^verbatim>\<open>bcrypt.hash(_, 10)\<close> as \<open>hash\<close>, \<^verbatim>\<open>jwt.sign(_, secret, {expiresIn: '1h'})\<close> as
  \<open>sign\<close>, and \<open>new_id\<close>, the ObjectId that \<^verbatim>\<open>new User\<close> draws.
\<close>

definition signup ::
  "(string \<Rightarrow> bool) \<Rightarrow> (string \<Rightarrow> string) \<Rightarrow> (jwt_payload \<Rightarrow> string) \<Rightarrow> oid \<Rightarrow>
   auth_body \<Rightarrow> store \<Rightarrow> response \<times> store" where
  "signup isEmail hash sign new_id b st =
     (let errors = signup_validation isEmail b in
      if errors \<noteq> [] then (respond 400 (Errors errors), st)
      else
        (case findOne_email (field_value (b_email b)) st of
           Some existingUser \<Rightarrow>
             (respond 400 (Message ''User already exists with this email''), st)
         | None \<Rightarrow>
             (let hashedPassword = hash (field_value (b_password b));
                  usr = \<lparr>u_id = new_id,
                         u_email = field_value (b_email b),
                         u_password = hashedPassword,
                         u_role = field_value (b_role b),
                         u_name = field_value (b_name b),
                         u_additionalInfo = b_additionalInfo b,
                         u_degree = field_value (b_degree b),
                         u_department = field_value (b_department b)\<rparr>;
                  token = sign \<lparr>userId = u_id usr, role = u_role usr\<rparr>
              in (respond 201 (AuthOk token (u_role usr) (u_name usr)),
                  st\<lparr>users := users st @ [usr]\<rparr>))))"

text \<open>
  \<^verbatim>\<open>POST /api/auth/login\<close>. \<open>compare\<close> is \<^verbatim>\<open>bcrypt.compare\<close>. The route writes
  nothing, so it returns the response alone.
\<close>

definition role_mismatch_message :: "string \<Rightarrow> string" where
  "role_mismatch_message r =
     ''Access denied. Please login with your assigned role as '' @ r @ ''.''"

definition login ::
  "(string \<Rightarrow> bool) \<Rightarrow> (string \<Rightarrow> string \<Rightarrow> bool) \<Rightarrow> (jwt_payload \<Rightarrow> string) \<Rightarrow>
   auth_body \<Rightarrow> store \<Rightarrow> response" where
  "login isEmail compare sign b st =
     (let errors = login_validation isEmail b in
      if errors \<noteq> [] then respond 400 (Errors errors)
      else
        (case findOne_email (field_value (b_email b)) st of
           None \<Rightarrow> respond 400 (Message ''Invalid credentials'')
         | Some usr \<Rightarrow>
             if u_role usr \<noteq> field_value (b_role b)
             then respond 403 (Message (role_mismatch_message (u_role usr)))
             else if \<not> compare (field_value (b_password b)) (u_password usr)
             then respond 400 (Message ''Invalid credentials'')
             else respond 200
                    (AuthOk (sign \<lparr>userId = u_id usr, role = u_role usr\<rparr>)
                       (u_role usr) (u_name usr))))"

section \<open>Subjects\<close>

text \<open>
  The handlers below run behind \<^verbatim>\<open>authenticateToken\<close>; their first argument is
  \<^verbatim>\<open>req.user\<close>. An exception inside \<^verbatim>\<open>try\<close> is answered by the \<^verbatim>\<open>catch\<close> block
  with status 500 and leaves the store as it was.
\<close>

definition findById_user :: "oid \<Rightarrow> store \<Rightarrow> user option" where
  "findById_user i st = find (\<lambda>u. u_id u = i) (users st)"

text \<open>
  \<^verbatim>\<open>POST /api/subjects\<close>: any authenticated caller creates a subject; the three
  fields must be truthy (present and not empty).
\<close>

record subject_body =
  sb_title :: "string option"
  sb_degree :: "string option"
  sb_department :: "string option"

definition create_subject ::
  "oid \<Rightarrow> jwt_payload \<Rightarrow> subject_body \<Rightarrow> store \<Rightarrow> response \<times> store" where
  "create_subject new_id req_user b st =
     (if field_value (sb_title b) = [] \<or> field_value (sb_degree b) = []
         \<or> field_value (sb_department b) = []
      then (respond 400 (Message ''All fields are required''), st)
      else
        (let savedSubject = \<lparr>s_id = new_id,
                               s_title = field_value (sb_title b),
                               s_degree = field_value (sb_degree b),
                               s_department = field_value (sb_department b),
                               s_creator = userId req_user,
                               s_units = []\<rparr>
         in (respond 201 (SubjectDoc savedSubject),
             st\<lparr>subjects := subjects st @ [savedSubject]\<rparr>)))"

text \<open>
  \<^verbatim>\<open>GET /api/subjects/student\<close>, registered before the parameter route
  \<^verbatim>\<open>/api/subjects/:role\<close>. A caller whose user document is gone makes
  \<^verbatim>\<open>user.degree\<close> throw.
\<close>

definition subjects_student :: "jwt_payload \<Rightarrow> store \<Rightarrow> response" where
  "subjects_student req_user st =
     (case findById_user (userId req_user) st of
        None \<Rightarrow> respond 500 (Message ''Error fetching subjects'')
      | Some usr \<Rightarrow>
          respond 200 (SubjectList
            (filter (\<lambda>s. s_degree s = u_degree usr \<and> s_department s = u_department usr)
               (subjects st))))"

text \<open>
  \<^verbatim>\<open>GET /api/subjects/:role\<close>, the first of the two handlers registered for this path.
  It always answers, so the second one never runs.
\<close>

definition subjects_by_role :: "jwt_payload \<Rightarrow> string \<Rightarrow> store \<Rightarrow> response" where
  "subjects_by_role req_user role_param st =
     (if role_param = ''teacher''
      then respond 200 (SubjectList (filter (\<lambda>s. s_creator s = userId req_user) (subjects st)))
      else if role_param = ''student''
      then respond 200 (SubjectList (subjects st))
      else respond 400 (Message ''Invalid role specified''))"

text \<open>\<^verbatim>\<open>GET /api/subjects\<close>: the listing chosen by the caller's stored role.\<close>

definition subjects_mine :: "jwt_payload \<Rightarrow> store \<Rightarrow> response" where
  "subjects_mine req_user st =
     (case findById_user (userId req_user) st of
        None \<Rightarrow> respond 500 (Message ''Error fetching subjects'')
      | Some usr \<Rightarrow>
          if u_role usr = ''teacher''
          then respond 200 (SubjectList (filter (\<lambda>s. s_creator s = u_id usr) (subjects st)))
          else respond 200 (SubjectList
                 (filter (\<lambda>s. s_degree s = u_degree usr \<and> s_department s = u_department usr)
                    (subjects st))))"

text \<open>
  \<^verbatim>\<open>findOneAndUpdate(filter, update)\<close>: the first document that satisfies the filter is
  updated; \<open>None\<close> when no document does.
\<close>

fun findOneAndUpdate :: "('a \<Rightarrow> bool) \<Rightarrow> ('a \<Rightarrow> 'a) \<Rightarrow> 'a list \<Rightarrow> ('a \<times> 'a list) option" where
  "findOneAndUpdate p f [] = None"
| "findOneAndUpdate p f (x # xs) =
     (if p x then Some (f x, f x # xs)
      else (case findOneAndUpdate p f xs of
              None \<Rightarrow> None
            | Some (d, ys) \<Rightarrow> Some (d, x # ys)))"

text \<open>\<^verbatim>\<open>PUT /api/subjects/:subjectId/units\<close>.\<close>

definition update_units ::
  "jwt_payload \<Rightarrow> oid \<Rightarrow> unit_doc list \<Rightarrow> store \<Rightarrow> response \<times> store" where
  "update_units req_user subjectId units st =
     (case findOneAndUpdate (\<lambda>s. s_id s = subjectId \<and> s_creator s = userId req_user)
             (\<lambda>s. s\<lparr>s_units := units\<rparr>) (subjects st) of
        None \<Rightarrow>
          (respond 404
             (Message ''Subject not found or you do not have permission to update it''), st)
      | Some (subj, subjects') \<Rightarrow> (respond 200 (SubjectDoc subj), st\<lparr>subjects := subjects'\<rparr>))"

section \<open>Grades\<close>

text \<open>
  The body of \<^verbatim>\<open>POST /api/grades\<close>, with the two references and the three scores
  present and of their schema types.
\<close>

record grade_body =
  gb_student :: oid
  gb_subject :: oid
  gb_cycleTest1 :: real
  gb_cycleTest2 :: real
  gb_assignments :: real

text \<open>
  \<^verbatim>\<open>save()\<close> on a document loaded from the collection writes its changed fields with
  \<^verbatim>\<open>updateOne({_id: doc._id}, ...)\<close>: the first document with that id is updated.
\<close>

fun updateOne :: "('a \<Rightarrow> bool) \<Rightarrow> ('a \<Rightarrow> 'a) \<Rightarrow> 'a list \<Rightarrow> 'a list" where
  "updateOne p f [] = []"
| "updateOne p f (x # xs) = (if p x then f x # xs else x # updateOne p f xs)"

definition same_pair :: "oid \<Rightarrow> oid \<Rightarrow> grade \<Rightarrow> bool" where
  "same_pair student subj g \<longleftrightarrow> g_student g = student \<and> g_subject g = subj"

text \<open>
  \<^verbatim>\<open>POST /api/grades\<close>; \<open>new_id\<close> is the ObjectId that \<^verbatim>\<open>new Grade\<close> draws when
  no record is found.
\<close>

definition submit_grades :: "oid \<Rightarrow> grade_body \<Rightarrow> store \<Rightarrow> response \<times> store" where
  "submit_grades new_id b st =
     (case find (same_pair (gb_student b) (gb_subject b)) (grades st) of
        Some found \<Rightarrow>
          (let set_scores = (\<lambda>g. g\<lparr>g_cycleTest1 := gb_cycleTest1 b,
                                     g_cycleTest2 := gb_cycleTest2 b,
                                     g_assignments := gb_assignments b\<rparr>)
           in (respond 201 (GradeDoc (set_scores found)),
               st\<lparr>grades := updateOne (\<lambda>g. g_id g = g_id found) set_scores (grades st)\<rparr>))
      | None \<Rightarrow>
          (let created = \<lparr>g_id = new_id,
                          g_student = gb_student b,
                          g_subject = gb_subject b,
                          g_cycleTest1 = gb_cycleTest1 b,
                          g_cycleTest2 = gb_cycleTest2 b,
                          g_assignments = gb_assignments b\<rparr>
           in (respond 201 (GradeDoc created), st\<lparr>grades := grades st @ [created]\<rparr>)))"

text \<open>The records a \<^verbatim>\<open>Grade.find({student, subject})\<close> returns.\<close>

definition grades_of :: "oid \<Rightarrow> oid \<Rightarrow> store \<Rightarrow> grade list" where
  "grades_of student subj st = filter (same_pair student subj) (grades st)"

section \<open>Academic calendar import\<close>

text \<open>
  An element of the uploaded JSON array. \<open>j_date = None\<close> is an element whose
  \<^verbatim>\<open>date\<close> is missing, so that \<^verbatim>\<open>entry.date.split\<close> throws.
\<close>

record cal_json =
  j_day :: string
  j_date :: "string option"
  j_description :: string

datatype upload = NotJson | JsonNotArray | JsonArray "cal_json list"

text \<open>\<^verbatim>\<open>s.padStart(2, '0')\<close>.\<close>

definition padStart2 :: "string \<Rightarrow> string" where
  "padStart2 s = replicate (2 - length s) CHR ''0'' @ s"

text \<open>
  The body of the \<^verbatim>\<open>map\<close> callback on one date:
  \<^verbatim>\<open>const [day, month, year] = entry.date.split('.')\<close> and the template string.
  With one piece only, \<^verbatim>\<open>month\<close> is undefined and \<^verbatim>\<open>month.padStart\<close> throws
  (\<open>None\<close>); with two pieces, \<^verbatim>\<open>year\<close> is undefined and prints as such.
\<close>

definition format_date :: "string \<Rightarrow> string option" where
  "format_date d =
     (case split_on CHR ''.'' d of
        day # month # year # _ \<Rightarrow> Some (year @ ''-'' @ padStart2 month @ ''-'' @ padStart2 day)
      | [day, month] \<Rightarrow> Some (''undefined'' @ ''-'' @ padStart2 month @ ''-'' @ padStart2 day)
      | _ \<Rightarrow> None)"

definition format_entry :: "cal_json \<Rightarrow> cal_entry option" where
  "format_entry e =
     (case j_date e of
        None \<Rightarrow> None
      | Some d \<Rightarrow>
          (case format_date d of
             None \<Rightarrow> None
           | Some formattedDate \<Rightarrow>
               Some \<lparr>c_day = j_day e, c_date = formattedDate, c_description = j_description e\<rparr>))"

text \<open>\<^verbatim>\<open>calendarData.map(...)\<close>: the first callback that throws aborts the whole map.\<close>

fun format_entries :: "cal_json list \<Rightarrow> cal_entry list option" where
  "format_entries [] = Some []"
| "format_entries (e # es) =
     (case format_entry e of
        None \<Rightarrow> None
      | Some x \<Rightarrow> (case format_entries es of None \<Rightarrow> None | Some xs \<Rightarrow> Some (x # xs)))"

text \<open>
  \<^verbatim>\<open>POST /api/academic-calendar/upload\<close>; \<open>file\<close> is \<^verbatim>\<open>req.file\<close> with its content
  read and parsed. \<^verbatim>\<open>deleteMany({})\<close> empties the collection, then \<^verbatim>\<open>insertMany\<close> appends
  the new documents. The calendar documents are kept by their schema fields. The 500
  answer also carries the text of the exception, which is left out.
\<close>

definition upload_calendar ::
  "jwt_payload \<Rightarrow> upload option \<Rightarrow> store \<Rightarrow> response \<times> store" where
  "upload_calendar req_user file st =
     (if role req_user \<noteq> ''teacher'' then (respond 403 (Message ''Access denied''), st)
      else
        (case file of
           None \<Rightarrow> (respond 400 (Message ''No file uploaded''), st)
         | Some NotJson \<Rightarrow> (respond 400 (Message ''Invalid JSON file''), st)
         | Some JsonNotArray \<Rightarrow> (respond 500 (Message ''Error uploading calendar''), st)
         | Some (JsonArray calendarData) \<Rightarrow>
             (case format_entries calendarData of
                None \<Rightarrow> (respond 500 (Message ''Error uploading calendar''), st)
              | Some newEntries \<Rightarrow>
                  (let emptied = st\<lparr>calendar := []\<rparr>
                   in (respond 201 (CalendarList newEntries),
                       emptied\<lparr>calendar := calendar emptied @ newEntries\<rparr>)))))"

section \<open>Task deadlines\<close>

text \<open>
  The filter of \<^verbatim>\<open>GET /api/tasks/check-deadlines\<close>; times are milliseconds, as
  \<^verbatim>\<open>getTime()\<close> gives them.
\<close>

definition oneDay :: int where
  "oneDay = 24 * 60 * 60 * 1000"

definition deadline_due :: "oid \<Rightarrow> int \<Rightarrow> task \<Rightarrow> bool" where
  "deadline_due owner now t \<longleftrightarrow>
     t_creator t = owner \<and> t_completed t = False \<and> t_notificationSent t = False \<and>
     now < t_dueDate t \<and> t_dueDate t < now + oneDay"

text \<open>\<^verbatim>\<open>updateMany(filter, update)\<close>: every document that satisfies the filter is updated.\<close>

definition updateMany :: "('a \<Rightarrow> bool) \<Rightarrow> ('a \<Rightarrow> 'a) \<Rightarrow> 'a list \<Rightarrow> 'a list" where
  "updateMany p f xs = map (\<lambda>x. if p x then f x else x) xs"

definition check_deadlines :: "jwt_payload \<Rightarrow> int \<Rightarrow> store \<Rightarrow> response \<times> store" where
  "check_deadlines req_user now st =
     (let found = filter (deadline_due (userId req_user) now) (tasks st);
          ids = map t_id found
      in (respond 200 (TaskList found),
          st\<lparr>tasks := updateMany (\<lambda>t. t_id t \<in> set ids)
                          (\<lambda>t. t\<lparr>t_notificationSent := True\<rparr>) (tasks st)\<rparr>))"

section \<open>Notions used in the statements\<close>

text \<open>
  Every stored email has passed the validator that signup runs; the token of a
  successful authentication response; and what a caller reads off the role-mismatch
  message of the login route, the text between its fixed prefix and the final dot.
\<close>

definition emails_valid :: "(string \<Rightarrow> bool) \<Rightarrow> store \<Rightarrow> bool" where
  "emails_valid isEmail st = list_all (\<lambda>u. isEmail (u_email u)) (users st)"

definition leaked_role :: "response \<Rightarrow> string" where
  "leaked_role r =
     (case content r of
        Message m \<Rightarrow>
          butlast (drop (length ''Access denied. Please login with your assigned role as '') m)
      | _ \<Rightarrow> [])"

definition token_of :: "response \<Rightarrow> string option" where
  "token_of r = (case content r of AuthOk token _ _ \<Rightarrow> Some token | _ \<Rightarrow> None)"

text \<open>The list that a deadline check returns.\<close>

definition tasks_of :: "response \<Rightarrow> task list" where
  "tasks_of r = (case content r of TaskList ts \<Rightarrow> ts | _ \<Rightarrow> [])"

text \<open>The scores of a grade record are those of a submission.\<close>

definition scores_set :: "grade_body \<Rightarrow> grade \<Rightarrow> bool" where
  "scores_set b g \<longleftrightarrow>
     g_cycleTest1 g = gb_cycleTest1 b \<and> g_cycleTest2 g = gb_cycleTest2 b \<and>
     g_assignments g = gb_assignments b"

text \<open>
  The grade collection as the route and the seeder build it: ids are unique, and there
  is one record per pair of student and subject.
\<close>

definition pair_key :: "grade \<Rightarrow> oid \<times> oid" where
  "pair_key g = (g_student g, g_subject g)"

definition grades_wf :: "store \<Rightarrow> bool" where
  "grades_wf st \<longleftrightarrow> distinct (map g_id (grades st)) \<and> distinct (map pair_key (grades st))"

text \<open>
  The calendar import as the specification words it, to be compared with
  \<open>format_date\<close>. A date in the form \<^verbatim>\<open>DD.MM.YYYY\<close> is ten characters, digits but
  for a dot in the third and the sixth place; its rewriting \<^verbatim>\<open>YYYY-MM-DD\<close> takes the
  year, the month and the day from their places.
\<close>

definition is_digit :: "char \<Rightarrow> bool" where
  "is_digit c \<longleftrightarrow> c \<in> set ''0123456789''"

definition ddmmyyyy :: "string \<Rightarrow> bool" where
  "ddmmyyyy d =
     (case d of
        [d1, d2, p, m1, m2, q, y1, y2, y3, y4] \<Rightarrow>
          p = CHR ''.'' \<and> q = CHR ''.'' \<and> list_all is_digit [d1, d2, m1, m2, y1, y2, y3, y4]
      | _ \<Rightarrow> False)"

definition iso_date :: "string \<Rightarrow> string" where
  "iso_date d = drop 6 d @ ''-'' @ take 2 (drop 3 d) @ ''-'' @ take 2 d"

definition imported :: "cal_json \<Rightarrow> cal_entry" where
  "imported e = \<lparr>c_day = j_day e, c_date = iso_date (field_value (j_date e)),
                  c_description = j_description e\<rparr>"

definition dated_ddmmyyyy :: "cal_json \<Rightarrow> bool" where
  "dated_ddmmyyyy e = (case j_date e of None \<Rightarrow> False | Some d \<Rightarrow> ddmmyyyy d)"

section \<open>Concrete inputs\<close>

text \<open>
  Stand-ins for the library functions, used only where a statement is evaluated on a
  concrete request: a token is the user id in unary, a dot, and the role.
\<close>

definition demo_sign :: "jwt_payload \<Rightarrow> string" where
  "demo_sign p = replicate (userId p) CHR ''i'' @ ''.'' @ role p"

definition demo_verify :: "string \<Rightarrow> jwt_error + jwt_payload" where
  "demo_verify t =
     (case split_on CHR ''.'' t of
        [n, r] \<Rightarrow>
          if n \<noteq> [] \<and> list_all (\<lambda>c. c = CHR ''i'') n
          then Inr \<lparr>userId = length n, role = r\<rparr>
          else Inl JsonWebTokenError
      | _ \<Rightarrow> Inl JsonWebTokenError)"

definition demo_isEmail :: "string \<Rightarrow> bool" where
  "demo_isEmail e \<longleftrightarrow> CHR ''@'' \<in> set e"

definition demo_hash :: "string \<Rightarrow> string" where
  "demo_hash p = ''$2a$10$'' @ rev p"

definition demo_compare :: "string \<Rightarrow> string \<Rightarrow> bool" where
  "demo_compare p h \<longleftrightarrow> h = demo_hash p"

text \<open>A store in the shape the seeder leaves: two teachers, a student, two subjects.\<close>

definition teacher1 :: user where
  "teacher1 = \<lparr>u_id = 1, u_email = ''teacher1@example.com'', u_password = demo_hash ''password123'',
     u_role = ''teacher'', u_name = ''Rajesh Kumar'',
     u_additionalInfo = Some ''Professor of Computer Science'',
     u_degree = ''MCA'', u_department = ''Computer Science''\<rparr>"

definition teacher2 :: user where
  "teacher2 = \<lparr>u_id = 2, u_email = ''teacher2@example.com'', u_password = demo_hash ''password123'',
     u_role = ''teacher'', u_name = ''Priya Sharma'',
     u_additionalInfo = Some ''Assistant Professor of Mathematics'',
     u_degree = ''MSc'', u_department = ''Maths''\<rparr>"

definition student1 :: user where
  "student1 = \<lparr>u_id = 3, u_email = ''student1@example.com'', u_password = demo_hash ''password123'',
     u_role = ''student'', u_name = ''Arun Patel'',
     u_additionalInfo = Some ''Enrolled in 2023'',
     u_degree = ''BCA'', u_department = ''Computer Science''\<rparr>"

definition subject_dsa :: subject where
  "subject_dsa = \<lparr>s_id = 10, s_title = ''Data Structures and Algorithms'', s_degree = ''BCA'',
     s_department = ''Computer Science'', s_creator = 1, s_units = []\<rparr>"

definition subject_calculus :: subject where
  "subject_calculus = \<lparr>s_id = 11, s_title = ''Calculus and Differential Equations'',
     s_degree = ''BSc'', s_department = ''Maths'', s_creator = 2, s_units = []\<rparr>"

definition task_dsa :: task where
  "task_dsa = \<lparr>t_id = 30, t_text = ''Complete DSA assignment'', t_category = ''Academic'',
     t_priority = ''High'', t_dueDate = 5000, t_completed = False, t_creator = 3,
     t_notificationSent = False\<rparr>"

definition task_report :: task where
  "task_report = \<lparr>t_id = 31, t_text = ''Submit project report'', t_category = ''Academic'',
     t_priority = ''Medium'', t_dueDate = 6000, t_completed = True, t_creator = 3,
     t_notificationSent = False\<rparr>"

definition demo_store :: store where
  "demo_store = \<lparr>users = [teacher1, teacher2, student1],
     subjects = [subject_dsa, subject_calculus],
     grades = [\<lparr>g_id = 20, g_student = 3, g_subject = 10, g_cycleTest1 = 18,
                 g_cycleTest2 = 20, g_assignments = 9\<rparr>],
     calendar = [\<lparr>c_day = ''Monday'', c_date = ''2025-10-28'',
                   c_description = ''First day of semester''\<rparr>],
     tasks = [task_dsa, task_report]\<rparr>"

definition demo_handler :: "jwt_payload \<Rightarrow> store \<Rightarrow> response \<times> store" where
  "demo_handler req_user st = check_deadlines req_user 1000 st"

definition demo_login_wrong_role :: auth_body where
  "demo_login_wrong_role = \<lparr>b_email = Some ''student1@example.com'', b_password = Some ''guess'',
     b_role = Some ''teacher'', b_name = None, b_additionalInfo = None, b_degree = None,
     b_department = None\<rparr>"

definition demo_signup_new :: auth_body where
  "demo_signup_new = \<lparr>b_email = Some ''student2@example.com'', b_password = Some ''password123'',
     b_role = Some ''student'', b_name = Some ''Sneha Reddy'',
     b_additionalInfo = Some ''Enrolled in 2023'', b_degree = Some ''BCA'',
     b_department = Some ''Computer Science''\<rparr>"

definition demo_signup_taken :: auth_body where
  "demo_signup_taken = demo_signup_new\<lparr>b_email := Some ''student1@example.com''\<rparr>"

definition demo_signup_taken_short :: auth_body where
  "demo_signup_taken_short = demo_signup_taken\<lparr>b_password := Some ''123''\<rparr>"

definition demo_student :: jwt_payload where
  "demo_student = \<lparr>userId = 3, role = ''student''\<rparr>"

definition demo_teacher :: jwt_payload where
  "demo_teacher = \<lparr>userId = 1, role = ''teacher''\<rparr>"

definition demo_units :: "unit_doc list" where
  "demo_units = [Unit ''Limits and Continuity'' [Section ''Introduction to Limits'' ''Overwritten'' []]]"

definition demo_grades_first :: grade_body where
  "demo_grades_first = \<lparr>gb_student = 3, gb_subject = 11, gb_cycleTest1 = 10, gb_cycleTest2 = 12,
     gb_assignments = 5\<rparr>"

definition demo_grades_second :: grade_body where
  "demo_grades_second = \<lparr>gb_student = 3, gb_subject = 11, gb_cycleTest1 = 15, gb_cycleTest2 = 17,
     gb_assignments = 8\<rparr>"

definition demo_calendar_file :: "cal_json list" where
  "demo_calendar_file = [\<lparr>j_day = ''Wednesday'', j_date = Some ''05.11.2025'',
     j_description = ''Guest lecture on AI''\<rparr>]"

lemmas demo_defs = demo_store_def teacher1_def teacher2_def student1_def subject_dsa_def
  subject_calculus_def task_dsa_def task_report_def

section \<open>The authentication guard\<close>

text \<open>
  Claim C1, as the code has it. A request to a protected route whose bearer token fails
  verification (bad signature, expired, or any other error of \<^verbatim>\<open>jwt.verify\<close>) is
  ended by the guard with status 403 and the message \<open>Invalid or expired token\<close>; the
  route handler is not run and the store is untouched.
\<close>

theorem invalid_token_ends_with_403:
  assumes "bearer_token authHeader = Some token"
    and "verify token = Inl err"
  shows "protected verify authHeader handler st =
           (respond 403 (Message ''Invalid or expired token''), st)"
  using assms by (simp add: protected_def authenticateToken_def)

theorem invalid_token_ends_with_403_witness:
  "bearer_token (Some ''Bearer stale'') = Some ''stale'' \<and>
   demo_verify ''stale'' = Inl JsonWebTokenError \<and>
   protected demo_verify (Some ''Bearer stale'') demo_handler demo_store =
     (respond 403 (Message ''Invalid or expired token''), demo_store)"
proof -
  have tok: "bearer_token (Some ''Bearer stale'') = Some ''stale''"
    by (simp add: bearer_token_def)
  have bad: "demo_verify ''stale'' = Inl JsonWebTokenError"
    by (simp add: demo_verify_def)
  from invalid_token_ends_with_403
         [where verify = demo_verify and handler = demo_handler and st = demo_store, OF tok bad]
       tok bad
  show ?thesis by simp
qed

text \<open>
  The status that claim C1 states, 401, is not what an invalid token gets: the token
  \<open>stale\<close> fails verification and the guard answers 403.
\<close>

theorem invalid_token_status_is_not_401:
  "bearer_token (Some ''Bearer stale'') = Some ''stale'' \<and>
   demo_verify ''stale'' = Inl JsonWebTokenError \<and>
   status (fst (protected demo_verify (Some ''Bearer stale'') demo_handler demo_store)) = 403 \<and>
   status (fst (protected demo_verify (Some ''Bearer stale'') demo_handler demo_store)) \<noteq> 401"
  by (simp add: bearer_token_def demo_verify_def protected_def authenticateToken_def respond_def)

section \<open>Properties of signup and login\<close>

lemma find_snoc:
  "find P (xs @ [y]) = (case find P xs of None \<Rightarrow> (if P y then Some y else None) | Some x \<Rightarrow> Some x)"
  by (induction xs) auto

lemma check_Nil: "check ok msg = [] \<longleftrightarrow> ok"
  by (simp add: check_def)

lemma login_validation_Nil:
  "login_validation isEmail b = [] \<longleftrightarrow>
     b_email b \<noteq> None \<and> isEmail (field_value (b_email b)) \<and> b_password b \<noteq> None \<and> b_role b \<noteq> None"
  by (auto simp: login_validation_def check_Nil)

lemma signup_validation_Nil:
  "signup_validation isEmail b = [] \<longleftrightarrow>
     b_email b \<noteq> None \<and> isEmail (field_value (b_email b)) \<and>
     6 \<le> length (field_value (b_password b)) \<and>
     field_value (b_role b) \<in> {''teacher'', ''student'', ''alumni''} \<and>
     field_value (b_name b) \<noteq> [] \<and> field_value (b_degree b) \<noteq> [] \<and>
     field_value (b_department b) \<noteq> []"
  by (auto simp: signup_validation_def check_Nil)

lemma findOne_email_found:
  "findOne_email e st = Some usr \<Longrightarrow> usr \<in> set (users st) \<and> u_email usr = e"
  by (auto simp: findOne_email_def find_Some_iff)

lemma stored_email_valid:
  "emails_valid isEmail st \<Longrightarrow> findOne_email e st = Some usr \<Longrightarrow> isEmail e"
  using findOne_email_found [of e st usr] by (auto simp: emails_valid_def list_all_iff)

text \<open>
  Signup stores an email only after \<^verbatim>\<open>isEmail\<close> has accepted it, so \<open>emails_valid\<close>
  holds of every store that signup has built.
\<close>

lemma signup_keeps_emails_valid:
  "emails_valid isEmail st \<Longrightarrow> emails_valid isEmail (snd (signup isEmail hash sign new_id b st))"
  by (auto simp: signup_def Let_def emails_valid_def signup_validation_Nil split: option.splits)

lemma login_mismatch:
  assumes "emails_valid isEmail st"
    and "b_email b = Some e" and "b_password b = Some p" and "b_role b = Some r"
    and "findOne_email e st = Some usr"
    and "u_role usr \<noteq> r"
  shows "login isEmail compare sign b st = respond 403 (Message (role_mismatch_message (u_role usr)))"
proof -
  have "isEmail e" using assms(1,5) by (rule stored_email_valid)
  then have "login_validation isEmail b = []"
    using assms(2-4) by (simp add: login_validation_Nil field_value_def)
  then show ?thesis
    using assms(2,4,5,6) by (simp add: login_def field_value_def)
qed

lemma leaked_role_mismatch: "leaked_role (respond 403 (Message (role_mismatch_message r))) = r"
  by (simp add: leaked_role_def respond_def role_mismatch_message_def)

lemma demo_emails_valid: "emails_valid demo_isEmail demo_store"
  by (simp add: emails_valid_def demo_isEmail_def demo_defs)

lemma demo_student1_found: "findOne_email ''student1@example.com'' demo_store = Some student1"
  by (simp add: findOne_email_def demo_defs)

text \<open>
  Claim C3. A login request names the email of a stored user, states a role \<open>r\<close> that
  is not the user's stored role, and supplies a password \<open>p\<close>. The answer has status
  403, and it is the same answer for any other supplied password \<open>p'\<close> and any outcome
  \<open>compare'\<close> of the password comparison: it does not depend on whether the password is
  correct.
\<close>

theorem login_role_mismatch_403:
  assumes "emails_valid isEmail st"
    and "b_email b = Some e" and "b_password b = Some p" and "b_role b = Some r"
    and "findOne_email e st = Some usr"
    and "u_role usr \<noteq> r"
  shows "status (login isEmail compare sign b st) = 403 \<and>
         login isEmail compare' sign (b\<lparr>b_password := Some p'\<rparr>) st = login isEmail compare sign b st"
proof -
  have 1: "login isEmail compare sign b st = respond 403 (Message (role_mismatch_message (u_role usr)))"
    using assms by (rule login_mismatch)
  have 2: "login isEmail compare' sign (b\<lparr>b_password := Some p'\<rparr>) st
             = respond 403 (Message (role_mismatch_message (u_role usr)))"
    using assms(1) _ _ _ assms(5,6) by (rule login_mismatch) (simp_all add: assms)
  show ?thesis using 1 2 by (simp add: respond_def)
qed

theorem login_role_mismatch_403_witness:
  "emails_valid demo_isEmail demo_store \<and>
   findOne_email ''student1@example.com'' demo_store = Some student1 \<and>
   u_role student1 \<noteq> ''teacher'' \<and>
   status (login demo_isEmail demo_compare demo_sign demo_login_wrong_role demo_store) = 403 \<and>
   login demo_isEmail demo_compare demo_sign
     (demo_login_wrong_role\<lparr>b_password := Some ''password123''\<rparr>) demo_store
     = login demo_isEmail demo_compare demo_sign demo_login_wrong_role demo_store"
proof -
  have r: "u_role student1 \<noteq> ''teacher''" by (simp add: student1_def)
  from login_role_mismatch_403
         [where b = demo_login_wrong_role and compare = demo_compare and compare' = demo_compare
            and sign = demo_sign and p' = "''password123''",
          OF demo_emails_valid _ _ _ demo_student1_found r]
       demo_emails_valid demo_student1_found r
  show ?thesis by (simp add: demo_login_wrong_role_def)
qed

text \<open>
  Claim C10. In the same situation the answer is fixed without consulting the password
  comparison (it is the same for every \<open>compare\<close>), and its message ends with the
  account's stored role, which the caller reads back with \<open>leaked_role\<close>: knowing a
  registered email is enough to learn the role.
\<close>

theorem login_role_mismatch_reveals_role:
  assumes "emails_valid isEmail st"
    and "b_email b = Some e" and "b_password b = Some p" and "b_role b = Some r"
    and "findOne_email e st = Some usr"
    and "u_role usr \<noteq> r"
  shows "login isEmail compare sign b st =
           respond 403 (Message (''Access denied. Please login with your assigned role as '' @ u_role usr @ ''.'')) \<and>
         leaked_role (login isEmail compare sign b st) = u_role usr"
  using login_mismatch [OF assms] leaked_role_mismatch [of "u_role usr"]
  by (simp add: role_mismatch_message_def)

theorem login_role_mismatch_reveals_role_witness:
  "emails_valid demo_isEmail demo_store \<and>
   findOne_email ''student1@example.com'' demo_store = Some student1 \<and>
   u_role student1 \<noteq> ''teacher'' \<and>
   login demo_isEmail demo_compare demo_sign demo_login_wrong_role demo_store =
     respond 403 (Message ''Access denied. Please login with your assigned role as student.'') \<and>
   leaked_role (login demo_isEmail demo_compare demo_sign demo_login_wrong_role demo_store)
     = ''student''"
proof -
  have r: "u_role student1 \<noteq> ''teacher''" by (simp add: student1_def)
  from login_role_mismatch_reveals_role
         [where b = demo_login_wrong_role and compare = demo_compare and sign = demo_sign,
          OF demo_emails_valid _ _ _ demo_student1_found r]
       demo_emails_valid demo_student1_found r
  show ?thesis by (simp add: demo_login_wrong_role_def student1_def leaked_role_def respond_def)
qed

text \<open>
  Claim C9, as the code has it. A signup request whose email is that of a stored user
  is answered with status 400 and leaves the store as it was. The body of the answer is
  the message \<open>User already exists with this email\<close> when the request passes the field
  validators, and the error list of the validators when it fails one of them: they run
  before the email is looked up.
\<close>

theorem duplicate_email_signup:
  assumes "b_email b = Some e"
    and "findOne_email e st = Some usr"
  shows "status (fst (signup isEmail hash sign new_id b st)) = 400 \<and>
         snd (signup isEmail hash sign new_id b st) = st \<and>
         content (fst (signup isEmail hash sign new_id b st)) =
           (if signup_validation isEmail b = []
            then Message ''User already exists with this email''
            else Errors (signup_validation isEmail b))"
  using assms by (simp add: signup_def Let_def field_value_def respond_def)

theorem duplicate_email_signup_witness:
  "findOne_email ''student1@example.com'' demo_store = Some student1 \<and>
   signup_validation demo_isEmail demo_signup_taken = [] \<and>
   signup demo_isEmail demo_hash demo_sign 4 demo_signup_taken demo_store =
     (respond 400 (Message ''User already exists with this email''), demo_store) \<and>
   signup_validation demo_isEmail demo_signup_taken_short =
     [''Password must be at least 6 characters long''] \<and>
   signup demo_isEmail demo_hash demo_sign 4 demo_signup_taken_short demo_store =
     (respond 400 (Errors [''Password must be at least 6 characters long'']), demo_store)"
proof -
  have e': "b_email demo_signup_taken_short = Some ''student1@example.com''"
    by (simp add: demo_signup_taken_short_def demo_signup_taken_def)
  have v': "signup_validation demo_isEmail demo_signup_taken_short =
              [''Password must be at least 6 characters long'']"
    by (simp add: signup_validation_def check_def field_value_def demo_signup_taken_short_def
          demo_signup_taken_def demo_signup_new_def demo_isEmail_def)
  have e: "b_email demo_signup_taken = Some ''student1@example.com''"
    by (simp add: demo_signup_taken_def)
  have v: "signup_validation demo_isEmail demo_signup_taken = []"
    by (simp add: signup_validation_def check_def field_value_def demo_signup_taken_def
          demo_signup_new_def demo_isEmail_def)
  from duplicate_email_signup
         [where isEmail = demo_isEmail and hash = demo_hash and sign = demo_sign and new_id = 4,
          OF e demo_student1_found]
       duplicate_email_signup
         [where isEmail = demo_isEmail and hash = demo_hash and sign = demo_sign and new_id = 4,
          OF e' demo_student1_found]
       v v' demo_student1_found
  show ?thesis by (simp add: prod_eq_iff response.equality respond_def)
qed

text \<open>
  Claim C9 as stated fails on a request with a registered email and a password of three
  characters: the answer is the validators' error list, not the duplicate-email error.
\<close>

theorem duplicate_email_invalid_payload:
  "findOne_email ''student1@example.com'' demo_store = Some student1 \<and>
   b_email demo_signup_taken_short = Some ''student1@example.com'' \<and>
   fst (signup demo_isEmail demo_hash demo_sign 4 demo_signup_taken_short demo_store) =
     respond 400 (Errors [''Password must be at least 6 characters long'']) \<and>
   content (fst (signup demo_isEmail demo_hash demo_sign 4 demo_signup_taken_short demo_store))
     \<noteq> Message ''User already exists with this email''"
  by (simp add: demo_student1_found signup_def signup_validation_def check_def field_value_def
        demo_signup_taken_short_def demo_signup_taken_def demo_signup_new_def demo_isEmail_def
        respond_def)

text \<open>
  Claim C4. A signup payload passes the validators and its email is not registered.
  Signup answers 201. A login with the same email, password and role, made on the
  resulting store, answers 200, and its token verifies to the id and role of the user
  record that signup created. The two library facts the statement rests on are
  hypotheses: \<^verbatim>\<open>bcrypt.compare\<close> accepts a password against its own hash, and
  \<^verbatim>\<open>jwt.verify\<close> returns the payload that \<^verbatim>\<open>jwt.sign\<close> was given.
\<close>

theorem signup_then_login:
  assumes valid: "signup_validation isEmail b = []"
    and unused: "findOne_email (field_value (b_email b)) st = None"
    and same: "b_email b' = b_email b" "b_password b' = b_password b" "b_role b' = b_role b"
    and bcrypt: "compare (field_value (b_password b)) (hash (field_value (b_password b)))"
    and jwt: "verify (sign' \<lparr>userId = new_id, role = field_value (b_role b)\<rparr>)
                = Inr \<lparr>userId = new_id, role = field_value (b_role b)\<rparr>"
  shows "fst (signup isEmail hash sign new_id b st) =
           respond 201 (AuthOk (sign \<lparr>userId = new_id, role = field_value (b_role b)\<rparr>)
                          (field_value (b_role b)) (field_value (b_name b))) \<and>
         status (login isEmail compare sign' b' (snd (signup isEmail hash sign new_id b st))) = 200 \<and>
         map_option verify
           (token_of (login isEmail compare sign' b' (snd (signup isEmail hash sign new_id b st))))
           = Some (Inr \<lparr>userId = new_id, role = field_value (b_role b)\<rparr>) \<and>
         map_option (\<lambda>u. (u_id u, u_role u))
           (findOne_email (field_value (b_email b)) (snd (signup isEmail hash sign new_id b st)))
           = Some (new_id, field_value (b_role b))"
proof -
  let ?e = "field_value (b_email b)" and ?r = "field_value (b_role b)"
  let ?usr = "\<lparr>u_id = new_id, u_email = ?e, u_password = hash (field_value (b_password b)),
                u_role = ?r, u_name = field_value (b_name b),
                u_additionalInfo = b_additionalInfo b, u_degree = field_value (b_degree b),
                u_department = field_value (b_department b)\<rparr>"
  let ?st' = "st\<lparr>users := users st @ [?usr]\<rparr>"
  have su: "signup isEmail hash sign new_id b st =
              (respond 201 (AuthOk (sign \<lparr>userId = new_id, role = ?r\<rparr>) ?r (field_value (b_name b))), ?st')"
    using valid unused by (simp add: signup_def Let_def)
  have found: "findOne_email ?e ?st' = Some ?usr"
    using unused by (simp add: findOne_email_def find_snoc)
  have "login_validation isEmail b' = []"
    using valid same by (auto simp: login_validation_Nil signup_validation_Nil field_value_def split: option.splits)
  then have li: "login isEmail compare sign' b' ?st' =
                   respond 200 (AuthOk (sign' \<lparr>userId = new_id, role = ?r\<rparr>) ?r (field_value (b_name b)))"
    using found same bcrypt by (simp add: login_def)
  show ?thesis
    using su li found jwt by (simp add: token_of_def respond_def)
qed

theorem signup_then_login_witness:
  "signup_validation demo_isEmail demo_signup_new = [] \<and>
   findOne_email ''student2@example.com'' demo_store = None \<and>
   fst (signup demo_isEmail demo_hash demo_sign 4 demo_signup_new demo_store) =
     respond 201 (AuthOk ''iiii.student'' ''student'' ''Sneha Reddy'') \<and>
   status (login demo_isEmail demo_compare demo_sign demo_signup_new
            (snd (signup demo_isEmail demo_hash demo_sign 4 demo_signup_new demo_store))) = 200 \<and>
   map_option demo_verify
     (token_of (login demo_isEmail demo_compare demo_sign demo_signup_new
            (snd (signup demo_isEmail demo_hash demo_sign 4 demo_signup_new demo_store))))
     = Some (Inr \<lparr>userId = 4, role = ''student''\<rparr>)"
proof -
  have v: "signup_validation demo_isEmail demo_signup_new = []"
    by (simp add: signup_validation_def check_def field_value_def demo_signup_new_def
          demo_isEmail_def)
  have u: "findOne_email (field_value (b_email demo_signup_new)) demo_store = None"
    by (simp add: findOne_email_def field_value_def demo_signup_new_def demo_defs)
  have c: "demo_compare (field_value (b_password demo_signup_new))
             (demo_hash (field_value (b_password demo_signup_new)))"
    by (simp add: demo_compare_def)
  have j: "demo_verify (demo_sign \<lparr>userId = 4, role = field_value (b_role demo_signup_new)\<rparr>)
             = Inr \<lparr>userId = 4, role = field_value (b_role demo_signup_new)\<rparr>"
    by (simp add: demo_verify_def demo_sign_def field_value_def demo_signup_new_def
          numeral_eq_Suc)
  from signup_then_login
         [where isEmail = demo_isEmail and hash = demo_hash and sign = demo_sign
            and sign' = demo_sign and compare = demo_compare and verify = demo_verify
            and b = demo_signup_new and b' = demo_signup_new and st = demo_store
            and new_id = 4, OF v u refl refl refl c j]
       v u
  show ?thesis
    by (simp add: field_value_def demo_signup_new_def demo_sign_def numeral_eq_Suc)
qed

section \<open>Subject listings\<close>

text \<open>
  The two routes written for students scope by the caller's degree and department:
  \<^verbatim>\<open>GET /api/subjects/student\<close> for every caller with a user record, and
  \<^verbatim>\<open>GET /api/subjects\<close> for a caller whose stored role is not teacher. Each returns
  exactly the stored subjects of that degree and department.
\<close>

lemma student_routes_scoped:
  assumes "findById_user (userId req_user) st = Some usr"
  shows "subjects_student req_user st =
           respond 200 (SubjectList
             (filter (\<lambda>s. s_degree s = u_degree usr \<and> s_department s = u_department usr)
                (subjects st)))"
    and "u_role usr \<noteq> ''teacher'' \<Longrightarrow>
         subjects_mine req_user st =
           respond 200 (SubjectList
             (filter (\<lambda>s. s_degree s = u_degree usr \<and> s_department s = u_department usr)
                (subjects st)))"
  using assms by (simp_all add: subjects_student_def subjects_mine_def)

text \<open>
  The handler of \<^verbatim>\<open>/api/subjects/:role\<close> with the parameter \<open>student\<close> returns the
  whole collection, for every caller and every store.
\<close>

lemma role_route_student_unfiltered:
  "subjects_by_role req_user ''student'' st = respond 200 (SubjectList (subjects st))"
  by (simp add: subjects_by_role_def)

text \<open>
  Claim C2 is what the two routes above do, and the handler of
  \<^verbatim>\<open>/api/subjects/:role\<close> breaks it. Express matches a route against the raw path
  and decodes a parameter afterwards, so the request
  \<^verbatim>\<open>GET /api/subjects/%73tudent\<close> is not matched by the literal route and reaches
  this handler with the parameter \<open>student\<close>. Made by the student \<open>student1\<close> (BCA,
  Computer Science), it returns the subject of BSc, Maths as well, which the route
  \<^verbatim>\<open>GET /api/subjects/student\<close> withholds from the same caller.
\<close>

theorem role_route_student_leaks:
  "findById_user (userId demo_student) demo_store = Some student1 \<and>
   u_role student1 = ''student'' \<and>
   subjects_by_role demo_student ''student'' demo_store =
     respond 200 (SubjectList [subject_dsa, subject_calculus]) \<and>
   s_degree subject_calculus \<noteq> u_degree student1 \<and>
   s_department subject_calculus \<noteq> u_department student1 \<and>
   subjects_student demo_student demo_store = respond 200 (SubjectList [subject_dsa])"
  by (simp add: findById_user_def subjects_by_role_def subjects_student_def
        demo_student_def demo_defs)

section \<open>Updating the units of a subject\<close>

lemma findOneAndUpdate_None:
  "findOneAndUpdate p f xs = None \<longleftrightarrow> (\<forall>x \<in> set xs. \<not> p x)"
  by (induction xs) (auto split: option.splits)

lemma findOneAndUpdate_filter:
  assumes "\<And>x. p x \<Longrightarrow> \<not> q x \<and> \<not> q (f x)"
    and "findOneAndUpdate p f xs = Some (d, ys)"
  shows "filter q ys = filter q xs"
  using assms(2)
proof (induction xs arbitrary: d ys)
  case Nil
  then show ?case by simp
next
  case (Cons x xs)
  show ?case
  proof (cases "p x")
    case True
    with Cons.prems assms(1) [of x] show ?thesis by auto
  next
    case False
    with Cons.prems obtain zs where "findOneAndUpdate p f xs = Some (d, zs)" "ys = x # zs"
      by (auto split: option.splits)
    with Cons.IH show ?thesis by simp
  qed
qed

lemma update_units_foreign:
  "filter (\<lambda>s. s_creator s \<noteq> userId req_user) (subjects (snd (update_units req_user sid units st)))
     = filter (\<lambda>s. s_creator s \<noteq> userId req_user) (subjects st)"
proof (cases "findOneAndUpdate (\<lambda>s. s_id s = sid \<and> s_creator s = userId req_user)
             (\<lambda>s. s\<lparr>s_units := units\<rparr>) (subjects st)")
  case None
  then show ?thesis by (simp add: update_units_def)
next
  case (Some r)
  obtain d ys where r: "r = (d, ys)" by (cases r)
  have "filter (\<lambda>s. s_creator s \<noteq> userId req_user) ys
          = filter (\<lambda>s. s_creator s \<noteq> userId req_user) (subjects st)"
    by (rule findOneAndUpdate_filter [OF _ Some [unfolded r]]) simp
  with Some r show ?thesis by (simp add: update_units_def)
qed

text \<open>
  Claim C5. Subject ids are unique, \<open>subj\<close> is stored and was created by someone other
  than the caller. A unit update that names \<open>subj\<close> is answered 404 and the store is
  left as it was. Moreover, whatever subject id a request names, the stored subjects
  that the caller did not create are the same before and after.
\<close>

theorem update_units_by_other_rejected:
  assumes "distinct (map s_id (subjects st))"
    and "subj \<in> set (subjects st)"
    and "s_creator subj \<noteq> userId req_user"
  shows "update_units req_user (s_id subj) units st =
           (respond 404 (Message ''Subject not found or you do not have permission to update it''), st)
         \<and> filter (\<lambda>s. s_creator s \<noteq> userId req_user)
              (subjects (snd (update_units req_user anyId units st)))
           = filter (\<lambda>s. s_creator s \<noteq> userId req_user) (subjects st)"
proof -
  have "\<forall>x \<in> set (subjects st). \<not> (s_id x = s_id subj \<and> s_creator x = userId req_user)"
  proof
    fix x assume x: "x \<in> set (subjects st)"
    show "\<not> (s_id x = s_id subj \<and> s_creator x = userId req_user)"
    proof
      assume h: "s_id x = s_id subj \<and> s_creator x = userId req_user"
      from assms(1) have "inj_on s_id (set (subjects st))" by (simp add: distinct_map)
      with x assms(2) h have "x = subj" by (auto dest: inj_onD)
      with h assms(3) show False by simp
    qed
  qed
  then have "findOneAndUpdate (\<lambda>s. s_id s = s_id subj \<and> s_creator s = userId req_user)
             (\<lambda>s. s\<lparr>s_units := units\<rparr>) (subjects st) = None"
    by (simp add: findOneAndUpdate_None)
  then have "update_units req_user (s_id subj) units st =
           (respond 404 (Message ''Subject not found or you do not have permission to update it''), st)"
    by (simp add: update_units_def)
  then show ?thesis using update_units_foreign [of req_user anyId units st] by simp
qed

theorem update_units_by_other_rejected_witness:
  "distinct (map s_id (subjects demo_store)) \<and>
   subject_calculus \<in> set (subjects demo_store) \<and>
   s_creator subject_calculus \<noteq> userId demo_teacher \<and>
   update_units demo_teacher 11 demo_units demo_store =
     (respond 404 (Message ''Subject not found or you do not have permission to update it''),
      demo_store) \<and>
   filter (\<lambda>s. s_creator s \<noteq> userId demo_teacher)
     (subjects (snd (update_units demo_teacher 10 demo_units demo_store))) = [subject_calculus]"
proof -
  have d: "distinct (map s_id (subjects demo_store))" by (simp add: demo_defs)
  have m: "subject_calculus \<in> set (subjects demo_store)" by (simp add: demo_defs)
  have c: "s_creator subject_calculus \<noteq> userId demo_teacher"
    by (simp add: demo_teacher_def demo_defs)
  have i: "s_id subject_calculus = 11" by (simp add: demo_defs)
  have f: "filter (\<lambda>s. s_creator s \<noteq> userId demo_teacher) (subjects demo_store) = [subject_calculus]"
    by (simp add: demo_teacher_def demo_defs)
  from update_units_by_other_rejected [OF d m c, of demo_units 10] d m c
  show ?thesis by (simp only: i f) simp
qed

section \<open>Grade upsert\<close>

lemma find_filter_hd:
  "find P xs = (case filter P xs of [] \<Rightarrow> None | x # _ \<Rightarrow> Some x)"
  by (induction xs) auto

lemma updateOne_by_id:
  assumes "distinct (map k xs)" and "g \<in> set xs"
  shows "updateOne (\<lambda>d. k d = k g) f xs = map (\<lambda>d. if k d = k g then f d else d) xs"
  using assms
proof (induction xs)
  case Nil
  then show ?case by simp
next
  case (Cons x xs)
  show ?case
  proof (cases "k x = k g")
    case True
    with Cons.prems have "\<forall>d \<in> set xs. k d \<noteq> k g" by (auto simp: image_iff)
    then have "map (\<lambda>d. if k d = k g then f d else d) xs = xs"
      by (induction xs) auto
    with True show ?thesis by simp
  next
    case False
    with Cons show ?thesis by auto
  qed
qed

lemma filter_map_preserving:
  assumes "\<And>x. P (h x) = P x"
  shows "filter P (map h xs) = map h (filter P xs)"
  by (induction xs) (auto simp: assms)

lemma submit_creates:
  assumes "grades_of (gb_student b) (gb_subject b) st = []"
  shows "\<exists>g. grades_of (gb_student b) (gb_subject b) (snd (submit_grades new_id b st)) = [g]
           \<and> scores_set b g \<and> g_id g = new_id
           \<and> grades (snd (submit_grades new_id b st)) = grades st @ [g]"
proof -
  have "find (same_pair (gb_student b) (gb_subject b)) (grades st) = None"
    using assms by (simp add: find_filter_hd grades_of_def)
  then show ?thesis
    using assms by (simp add: submit_grades_def Let_def grades_of_def same_pair_def scores_set_def)
qed

lemma submit_updates:
  assumes "distinct (map g_id (grades st))"
    and "grades_of (gb_student b) (gb_subject b) st = [g0]"
  shows "\<exists>g. grades_of (gb_student b) (gb_subject b) (snd (submit_grades new_id b st)) = [g]
           \<and> scores_set b g \<and> g_id g = g_id g0
           \<and> map g_id (grades (snd (submit_grades new_id b st))) = map g_id (grades st)"
proof -
  let ?P = "same_pair (gb_student b) (gb_subject b)"
  let ?f = "\<lambda>g. g\<lparr>g_cycleTest1 := gb_cycleTest1 b, g_cycleTest2 := gb_cycleTest2 b,
                    g_assignments := gb_assignments b\<rparr>"
  let ?h = "\<lambda>d. if g_id d = g_id g0 then ?f d else d"
  have found: "find ?P (grades st) = Some g0"
    using assms(2) by (simp add: find_filter_hd grades_of_def)
  have "g0 \<in> set (filter ?P (grades st))"
    using assms(2) by (simp add: grades_of_def)
  then have mem: "g0 \<in> set (grades st)" by simp
  have upd: "updateOne (\<lambda>g. g_id g = g_id g0) ?f (grades st) = map ?h (grades st)"
    using assms(1) mem by (rule updateOne_by_id)
  have st': "grades (snd (submit_grades new_id b st)) = map ?h (grades st)"
    using found upd by (simp add: submit_grades_def Let_def)
  have "filter ?P (map ?h (grades st)) = map ?h (filter ?P (grades st))"
    by (rule filter_map_preserving) (simp add: same_pair_def)
  then have "grades_of (gb_student b) (gb_subject b) (snd (submit_grades new_id b st)) = [?f g0]"
    using assms(2) st' by (simp add: grades_of_def)
  moreover have "map g_id (map ?h (grades st)) = map g_id (grades st)"
    by (induction "grades st") auto
  ultimately show ?thesis using st' by (simp add: scores_set_def)
qed

lemma submit_grades_status: "status (fst (submit_grades new_id b st)) = 201"
  by (simp add: submit_grades_def Let_def respond_def split: option.splits)

text \<open>
  The route keeps the grade collection well formed, and a well-formed collection has at
  most one record for a pair.
\<close>

lemma distinct_key_single:
  "distinct (map k xs) \<Longrightarrow> length (filter (\<lambda>x. k x = v) xs) \<le> 1"
  by (induction xs) (auto simp: filter_empty_conv image_iff)

lemma grades_wf_single:
  assumes "grades_wf st"
  shows "length (grades_of student subj st) \<le> 1"
proof -
  have "same_pair student subj = (\<lambda>g. pair_key g = (student, subj))"
    by (auto simp: same_pair_def pair_key_def fun_eq_iff)
  with assms distinct_key_single [of pair_key "grades st" "(student, subj)"] show ?thesis
    by (simp add: grades_wf_def grades_of_def)
qed

lemma submit_grades_keeps_wf:
  assumes "grades_wf st" and "new_id \<notin> set (map g_id (grades st))"
  shows "grades_wf (snd (submit_grades new_id b st))"
proof (cases "find (same_pair (gb_student b) (gb_subject b)) (grades st)")
  case None
  then have "\<forall>g \<in> set (grades st). pair_key g \<noteq> (gb_student b, gb_subject b)"
    by (auto simp: find_None_iff same_pair_def pair_key_def)
  with assms None show ?thesis
    by (auto simp: grades_wf_def submit_grades_def Let_def pair_key_def)
next
  case (Some g0)
  let ?f = "\<lambda>g. g\<lparr>g_cycleTest1 := gb_cycleTest1 b, g_cycleTest2 := gb_cycleTest2 b,
                    g_assignments := gb_assignments b\<rparr>"
  let ?h = "\<lambda>d. if g_id d = g_id g0 then ?f d else d"
  from Some have "g0 \<in> set (grades st)" by (auto simp: find_Some_iff)
  with assms(1) have "updateOne (\<lambda>g. g_id g = g_id g0) ?f (grades st) = map ?h (grades st)"
    by (simp add: grades_wf_def updateOne_by_id)
  with Some have st': "grades (snd (submit_grades new_id b st)) = map ?h (grades st)"
    by (simp add: submit_grades_def Let_def)
  have ids: "map g_id (map ?h xs) = map g_id xs" for xs
    by (induction xs) auto
  have keys: "map pair_key (map ?h xs) = map pair_key xs" for xs
    by (induction xs) (auto simp: pair_key_def)
  from assms(1) show ?thesis
    unfolding grades_wf_def st' ids keys .
qed

text \<open>
  Claim C6. Grade ids are unique, the id drawn for a new record is unused, and the
  collection holds at most one record for the pair of student and subject. After two
  submissions for that pair, one after the other, the collection holds exactly one
  record for the pair, and its three scores are those of the second submission.
\<close>

theorem grade_upsert_twice:
  assumes ids: "distinct (map g_id (grades st))"
    and fresh: "new_id1 \<notin> set (map g_id (grades st))"
    and single: "length (grades_of (gb_student b1) (gb_subject b1) st) \<le> 1"
    and same: "gb_student b2 = gb_student b1" "gb_subject b2 = gb_subject b1"
  shows "\<exists>g. grades_of (gb_student b1) (gb_subject b1)
                (snd (submit_grades new_id2 b2 (snd (submit_grades new_id1 b1 st)))) = [g]
              \<and> g_cycleTest1 g = gb_cycleTest1 b2 \<and> g_cycleTest2 g = gb_cycleTest2 b2
              \<and> g_assignments g = gb_assignments b2"
proof -
  let ?st1 = "snd (submit_grades new_id1 b1 st)"
  have first: "\<exists>g. grades_of (gb_student b1) (gb_subject b1) ?st1 = [g]
                 \<and> distinct (map g_id (grades ?st1))"
  proof (cases "grades_of (gb_student b1) (gb_subject b1) st")
    case Nil
    from submit_creates [OF Nil, of new_id1] ids fresh show ?thesis by auto
  next
    case (Cons g0 rest)
    with single have "grades_of (gb_student b1) (gb_subject b1) st = [g0]" by simp
    from submit_updates [OF ids this, of new_id1] ids show ?thesis by auto
  qed
  then obtain g1 where g1: "grades_of (gb_student b2) (gb_subject b2) ?st1 = [g1]"
    and d1: "distinct (map g_id (grades ?st1))" using same by auto
  from submit_updates [OF d1 g1, of new_id2] same show ?thesis
    by (auto simp: scores_set_def)
qed

theorem grade_upsert_twice_witness:
  "distinct (map g_id (grades demo_store)) \<and>
   21 \<notin> set (map g_id (grades demo_store)) \<and>
   length (grades_of 3 11 demo_store) \<le> 1 \<and>
   grades_of 3 11
     (snd (submit_grades 22 demo_grades_second (snd (submit_grades 21 demo_grades_first demo_store))))
     = [\<lparr>g_id = 21, g_student = 3, g_subject = 11, g_cycleTest1 = 15, g_cycleTest2 = 17,
          g_assignments = 8\<rparr>]"
proof -
  have d: "distinct (map g_id (grades demo_store))" by (simp add: demo_defs)
  have f: "21 \<notin> set (map g_id (grades demo_store))" by (simp add: demo_defs)
  have s: "length (grades_of (gb_student demo_grades_first) (gb_subject demo_grades_first) demo_store) \<le> 1"
    by (simp add: grades_of_def same_pair_def demo_grades_first_def demo_defs)
  have e1: "gb_student demo_grades_second = gb_student demo_grades_first"
    by (simp add: demo_grades_first_def demo_grades_second_def)
  have e2: "gb_subject demo_grades_second = gb_subject demo_grades_first"
    by (simp add: demo_grades_first_def demo_grades_second_def)
  from grade_upsert_twice [OF d f s e1 e2, of 22] d f
  show ?thesis
    by (simp add: grades_of_def same_pair_def submit_grades_def Let_def
          demo_grades_first_def demo_grades_second_def demo_defs)
qed

section \<open>Deadline check\<close>

lemma deadline_due_unfold:
  "deadline_due owner now = (\<lambda>t. t_creator t = owner \<and> \<not> t_completed t \<and> \<not> t_notificationSent t \<and>
       now < t_dueDate t \<and> t_dueDate t < now + 86400000)"
  by (auto simp: deadline_due_def oneDay_def fun_eq_iff)

lemma swept_not_due_again:
  assumes "t' \<in> set (tasks (snd (check_deadlines ru now st)))"
    and "deadline_due (userId ru) later t'"
  shows "t_id t' \<notin> t_id ` set (filter (deadline_due (userId ru) now) (tasks st))"
  using assms
  by (auto simp: check_deadlines_def Let_def updateMany_def deadline_due_def split: if_splits)

lemma swept_same_instant:
  "filter (deadline_due (userId ru) now) (tasks (snd (check_deadlines ru now st))) = []"
  by (auto simp: filter_empty_conv check_deadlines_def Let_def updateMany_def deadline_due_def
        image_iff split: if_splits)

text \<open>
  Claim C7. The first deadline check returns exactly the caller's tasks that are not
  completed, not yet notified and due after now and before now plus 24 hours. A second
  check at the same instant returns nothing, and a check at any other instant \<open>later\<close>
  returns no task whose id the first check returned.
\<close>

theorem deadline_sweep_once:
  "tasks_of (fst (check_deadlines ru now st)) =
     filter (\<lambda>t. t_creator t = userId ru \<and> \<not> t_completed t \<and> \<not> t_notificationSent t \<and>
                 now < t_dueDate t \<and> t_dueDate t < now + 86400000) (tasks st) \<and>
   status (fst (check_deadlines ru now st)) = 200 \<and>
   tasks_of (fst (check_deadlines ru now (snd (check_deadlines ru now st)))) = [] \<and>
   set (map t_id (tasks_of (fst (check_deadlines ru later (snd (check_deadlines ru now st))))))
     \<inter> set (map t_id (tasks_of (fst (check_deadlines ru now st)))) = {}"
proof -
  have 1: "tasks_of (fst (check_deadlines ru t s)) = filter (deadline_due (userId ru) t) (tasks s)"
    for t s by (simp add: check_deadlines_def Let_def tasks_of_def respond_def)
  have 2: "set (map t_id (filter (deadline_due (userId ru) later) (tasks (snd (check_deadlines ru now st)))))
     \<inter> set (map t_id (filter (deadline_due (userId ru) now) (tasks st))) = {}"
    using swept_not_due_again [of _ ru now st later] by auto
  show ?thesis
    unfolding 1 using 2 swept_same_instant [of ru now st]
    by (simp add: deadline_due_unfold check_deadlines_def Let_def respond_def)
qed

theorem deadline_sweep_once_witness:
  "tasks_of (fst (check_deadlines demo_student 1000 demo_store)) = [task_dsa] \<and>
   tasks_of (fst (check_deadlines demo_student 1000
                    (snd (check_deadlines demo_student 1000 demo_store)))) = [] \<and>
   tasks_of (fst (check_deadlines demo_student 2000
                    (snd (check_deadlines demo_student 1000 demo_store)))) = []"
  using deadline_sweep_once [of demo_student 1000 demo_store 2000]
  by (simp add: check_deadlines_def Let_def updateMany_def deadline_due_def oneDay_def
        tasks_of_def respond_def demo_student_def demo_defs)

section \<open>Calendar import\<close>

lemma digit_not_dot: "is_digit c \<Longrightarrow> c \<noteq> CHR ''.''"
  by (auto simp: is_digit_def)

lemma ddmmyyyy_shape:
  assumes "ddmmyyyy d"
  obtains d1 d2 m1 m2 y1 y2 y3 y4 where
    "d = [d1, d2, CHR ''.'', m1, m2, CHR ''.'', y1, y2, y3, y4]"
    "list_all is_digit [d1, d2, m1, m2, y1, y2, y3, y4]"
  using assms unfolding ddmmyyyy_def
  by (auto split: list.splits)

lemma format_date_ddmmyyyy:
  assumes "ddmmyyyy d"
  shows "format_date d = Some (iso_date d)"
proof -
  from assms obtain d1 d2 m1 m2 y1 y2 y3 y4 where
    d: "d = [d1, d2, CHR ''.'', m1, m2, CHR ''.'', y1, y2, y3, y4]"
    and dig: "list_all is_digit [d1, d2, m1, m2, y1, y2, y3, y4]"
    by (rule ddmmyyyy_shape)
  from dig have "d1 \<noteq> CHR ''.''" "d2 \<noteq> CHR ''.''" "m1 \<noteq> CHR ''.''" "m2 \<noteq> CHR ''.''"
    "y1 \<noteq> CHR ''.''" "y2 \<noteq> CHR ''.''" "y3 \<noteq> CHR ''.''" "y4 \<noteq> CHR ''.''"
    by (simp_all add: digit_not_dot)
  then show ?thesis
    by (simp add: d format_date_def iso_date_def padStart2_def)
qed

lemma format_entry_ddmmyyyy: "dated_ddmmyyyy e \<Longrightarrow> format_entry e = Some (imported e)"
  by (auto simp: dated_ddmmyyyy_def format_entry_def imported_def field_value_def
        format_date_ddmmyyyy split: option.splits)

lemma format_entries_ddmmyyyy:
  "list_all dated_ddmmyyyy es \<Longrightarrow> format_entries es = Some (map imported es)"
  by (induction es) (simp_all add: format_entry_ddmmyyyy)

text \<open>
  Claim C8. A teacher uploads a JSON array whose entries all carry a date of the form
  \<^verbatim>\<open>DD.MM.YYYY\<close>. The answer is 201 with the entries, each date rewritten to
  \<^verbatim>\<open>YYYY-MM-DD\<close>, and the calendar collection is afterwards exactly these entries,
  whatever it held before.
\<close>

theorem calendar_import_replaces:
  assumes "role req_user = ''teacher''"
    and "list_all dated_ddmmyyyy entries"
  shows "upload_calendar req_user (Some (JsonArray entries)) st =
           (respond 201 (CalendarList (map imported entries)),
            st\<lparr>calendar := map imported entries\<rparr>)"
  using assms by (simp add: upload_calendar_def format_entries_ddmmyyyy Let_def)

theorem calendar_import_replaces_witness:
  "role demo_teacher = ''teacher'' \<and> list_all dated_ddmmyyyy demo_calendar_file \<and>
   upload_calendar demo_teacher (Some (JsonArray demo_calendar_file)) demo_store =
     (respond 201 (CalendarList [\<lparr>c_day = ''Wednesday'', c_date = ''2025-11-05'',
                                   c_description = ''Guest lecture on AI''\<rparr>]),
      demo_store\<lparr>calendar := [\<lparr>c_day = ''Wednesday'', c_date = ''2025-11-05'',
                                 c_description = ''Guest lecture on AI''\<rparr>]\<rparr>)"
proof -
  have r: "role demo_teacher = ''teacher''" by (simp add: demo_teacher_def)
  have l: "list_all dated_ddmmyyyy demo_calendar_file"
    by (simp add: dated_ddmmyyyy_def ddmmyyyy_def is_digit_def demo_calendar_file_def)
  have i: "map imported demo_calendar_file =
             [\<lparr>c_day = ''Wednesday'', c_date = ''2025-11-05'', c_description = ''Guest lecture on AI''\<rparr>]"
    by (simp add: imported_def iso_date_def field_value_def demo_calendar_file_def)
  from calendar_import_replaces [OF r l, of demo_store] r l
  show ?thesis by (simp only: i)
qed

end
